theory Spec2Isabelle
  imports Complex_Main "HOL-Library.Stream"
begin

section \<open>Python values and errors\<close>

text \<open>
  The exceptions the modelled code can raise by itself: indexing a list out of range,
  reading an attribute the object does not have, subscripting \<^verbatim>\<open>None\<close> or calling a
  function with a keyword it does not take; \<open>OSError\<close> is a result file that cannot be
  written or read. A raise is the \<open>Inl\<close> branch of a sum.
\<close>

datatype error = IndexError | AttributeError | TypeError | OSError

text \<open>
  A dynamically typed slot. The source annotates its image fields as \<^verbatim>\<open>np.ndarray\<close> and
  the result of \<^verbatim>\<open>Format\<close> as \<^verbatim>\<open>FormattedData\<close>, but it also stores the integer \<^verbatim>\<open>0\<close>
  (\<^verbatim>\<open>return 0\<close>, \<^verbatim>\<open>RawData(False, 0)\<close>) and the empty list \<^verbatim>\<open>[]\<close> in them. \<open>PyObj v\<close>
  is an object of the annotated type; the type parameter \<open>'a\<close> used below stands for the
  arrays and contours of the image library, which the code never inspects.
\<close>

datatype 'v pyval = PyInt int | PyEmptyList | PyObj 'v

definition bindE :: "error + 'x \<Rightarrow> ('x \<Rightarrow> error + 'y) \<Rightarrow> error + 'y" where
  "bindE m f = (case m of Inl e \<Rightarrow> Inl e | Inr x \<Rightarrow> f x)"

text \<open>\<^verbatim>\<open>xs[i]\<close> for a literal or loop index \<open>i \<ge> 0\<close>.\<close>

definition index :: "'x list \<Rightarrow> nat \<Rightarrow> error + 'x" where
  "index xs i = (if i < length xs then Inr (xs ! i) else Inl IndexError)"

section \<open>DataTypes.py\<close>

record MetaData =
  timestamp :: string
  rgbFile :: string

record 'a RawData =
  valid :: bool
  rgb :: "'a pyval"

record 'a DataUnit =
  raw :: "'a RawData"
  meta :: MetaData

section \<open>StageChannel.py\<close>

text \<open>
  The four channel classes. A \<^verbatim>\<open>SnapshotChannel\<close> holds the history list of \<^verbatim>\<open>Format\<close>,
  whose entries are pairs of a name and either the \<^verbatim>\<open>DataUnit\<close> (the entry \<^verbatim>\<open>"Disk"\<close>)
  or a stage's output channel.
\<close>

datatype 'a StageChannel =
    SingleImageChannel "'a pyval"
  | DoubleImageChannel "'a pyval" "'a pyval" string
  | SnapshotChannel "(string \<times> 'a entry_value) list"
  | SegmentationChannel "'a pyval list" "'a pyval list" "'a pyval" string
and 'a entry_value =
    DataUnitValue "'a DataUnit"
  | ChannelValue "'a StageChannel"

type_synonym 'a StageEntry = "string \<times> 'a entry_value"

text \<open>
  Each class body runs \<^verbatim>\<open>CHANNEL_ID: int = getrandbits(256)\<close> once, when the module is
  imported. The generator is the standard library's; it is modelled by the stream of
  values it will deliver, and \<open>getrandbits k\<close> takes the next one, which lies in
  \<open>[0, 2^k)\<close>.
\<close>

definition getrandbits :: "nat \<Rightarrow> int stream \<Rightarrow> int \<times> int stream" where
  "getrandbits k g = (shd g mod 2 ^ k, stl g)"

record channel_ids =
  SingleImage_ID :: int
  DoubleImage_ID :: int
  Snapshot_ID :: int
  Segmentation_ID :: int

text \<open>Importing the module: the class bodies run in the order of the file.\<close>

definition import_StageChannel :: "int stream \<Rightarrow> channel_ids" where
  "import_StageChannel g0 =
     (let (single, g1) = getrandbits 256 g0;
          (double, g2) = getrandbits 256 g1;
          (snapshot, g3) = getrandbits 256 g2;
          (segmentation, g4) = getrandbits 256 g3
      in \<lparr>SingleImage_ID = single, DoubleImage_ID = double,
          Snapshot_ID = snapshot, Segmentation_ID = segmentation\<rparr>)"

text \<open>Attribute reads on a channel: a class without the attribute raises.\<close>

fun get_img :: "'a StageChannel \<Rightarrow> error + 'a pyval" where
  "get_img (SingleImageChannel i) = Inr i"
| "get_img _ = Inl AttributeError"

fun get_imgPrimary :: "'a StageChannel \<Rightarrow> error + 'a pyval" where
  "get_imgPrimary (DoubleImageChannel p s t) = Inr p"
| "get_imgPrimary _ = Inl AttributeError"

fun get_imgSecondary :: "'a StageChannel \<Rightarrow> error + 'a pyval" where
  "get_imgSecondary (DoubleImageChannel p s t) = Inr s"
| "get_imgSecondary _ = Inl AttributeError"

fun get_tag :: "'a StageChannel \<Rightarrow> error + string" where
  "get_tag (DoubleImageChannel p s t) = Inr t"
| "get_tag (SegmentationChannel cs ms r t) = Inr t"
| "get_tag _ = Inl AttributeError"

fun get_formatted :: "'a StageChannel \<Rightarrow> error + 'a StageEntry list" where
  "get_formatted (SnapshotChannel f) = Inr f"
| "get_formatted _ = Inl AttributeError"

fun get_masks :: "'a StageChannel \<Rightarrow> error + 'a pyval list" where
  "get_masks (SegmentationChannel cs ms r t) = Inr ms"
| "get_masks _ = Inl AttributeError"

fun get_contours :: "'a StageChannel \<Rightarrow> error + 'a pyval list" where
  "get_contours (SegmentationChannel cs ms r t) = Inr cs"
| "get_contours _ = Inl AttributeError"

fun get_rgb :: "'a StageChannel \<Rightarrow> error + 'a pyval" where
  "get_rgb (SegmentationChannel cs ms r t) = Inr r"
| "get_rgb _ = Inl AttributeError"

section \<open>StageConfig.py\<close>

record WhiteBalanceConfig =
  roi :: "int \<times> int \<times> int \<times> int"

record ViewportAdjustConfig =
  side :: string
  rotate_deg :: int
  shift :: int

record BinaryMaskConfig =
  threshold :: int
  mx :: int
  obj :: string
  fill :: int
  channel :: string

record ConsolidationConfig =
  stageNames :: "string list"
  outChannelId :: int

text \<open>The two subclasses of \<^verbatim>\<open>RigidSegmentationConfig\<close>, told apart by \<^verbatim>\<open>GetRigidType\<close>.\<close>

datatype RigidSegmentationConfig =
    RigidSegmentationGridConfig "int \<times> int" int "int \<times> int" int int string
  | RigidSegmentationCustomConfig "(int \<times> int) list" int

fun GetRigidType :: "RigidSegmentationConfig \<Rightarrow> int" where
  "GetRigidType (RigidSegmentationGridConfig start radius spacing rows cols roiType) = 0"
| "GetRigidType (RigidSegmentationCustomConfig centers radius) = 1"

record DBSCANSegmentationConfig =
  minClusterSize :: int
  epsilon :: real

record PlantAnalysisConfig =
  filetype :: string
  outfile :: string

section \<open>The image library\<close>

text \<open>
  The calls into PlantCV (and, in \<^verbatim>\<open>PlantAnalysis\<close>, pandas and the file system) are
  outside the repository. They are parameters of the model: one function per call, with
  the arguments the source passes. A call is taken to return; what it computes is left
  open. \<open>roi_multi\<close> is \<^verbatim>\<open>pcv.roi.multi\<close>, called with a start point, spacing and grid
  size, or with a list of centres. \<open>save_results\<close> stands for everything
  \<^verbatim>\<open>PlantAnalysis.Invoke\<close> does after its loop (the file name cut out of the tag, the
  CSV written, read back and stamped), which can raise.
\<close>

datatype coord = Start "int \<times> int" | Centers "(int \<times> int) list"

record 'a pcv =
  white_balance :: "'a pyval \<Rightarrow> int \<times> int \<times> int \<times> int \<Rightarrow> 'a"
  rotate_img :: "'a pyval \<Rightarrow> int \<Rightarrow> 'a"
  shift_img :: "'a pyval \<Rightarrow> int \<Rightarrow> string \<Rightarrow> 'a"
  rgb2gray_lab :: "'a pyval \<Rightarrow> string \<Rightarrow> 'a"
  threshold_binary :: "'a pyval \<Rightarrow> int \<Rightarrow> int \<Rightarrow> string \<Rightarrow> 'a"
  fill_img :: "'a pyval \<Rightarrow> int \<Rightarrow> 'a"
  find_objects :: "'a pyval \<Rightarrow> 'a pyval \<Rightarrow> 'a \<times> 'a"
  roi_multi :: "'a pyval \<Rightarrow> coord \<Rightarrow> int \<Rightarrow> ((int \<times> int) \<times> int \<times> int) option
                 \<Rightarrow> 'a list \<times> 'a list"
  roi_objects :: "'a pyval \<Rightarrow> 'a \<Rightarrow> 'a \<Rightarrow> 'a \<Rightarrow> 'a \<Rightarrow> 'a \<times> 'a \<times> 'a \<times> int"
  object_composition :: "'a pyval \<Rightarrow> 'a \<Rightarrow> 'a \<Rightarrow> 'a \<times> 'a"
  spatial_clustering :: "'a pyval \<Rightarrow> int \<Rightarrow> real \<Rightarrow> 'a \<times> 'a list"
  roi_from_binary_image :: "'a pyval \<Rightarrow> 'a \<Rightarrow> 'a"
  save_results :: "PlantAnalysisConfig \<Rightarrow> string \<Rightarrow> nat \<Rightarrow> error option"

section \<open>Stage.py\<close>

datatype Stage =
    WhiteBalance WhiteBalanceConfig
  | ViewportAdjust ViewportAdjustConfig
  | BinaryMask BinaryMaskConfig
  | Consolidation ConsolidationConfig
  | RigidSegmentation RigidSegmentationConfig
  | DBSCANSegmentation DBSCANSegmentationConfig
  | PlantAnalysis PlantAnalysisConfig

fun GetName :: "Stage \<Rightarrow> string" where
  "GetName (WhiteBalance cfg) = ''WhiteBalance''"
| "GetName (ViewportAdjust cfg) = ''ViewportAdjust''"
| "GetName (BinaryMask cfg) = ''BinaryMask''"
| "GetName (Consolidation cfg) = ''Consolidation''"
| "GetName (RigidSegmentation cfg) = ''RigidSegmentation''"
| "GetName (DBSCANSegmentation cfg) = ''DBSCANSegmentation''"
| "GetName (PlantAnalysis cfg) = ''PlantAnalysis''"

text \<open>The pair (input channel id, output channel id) of a stage.\<close>

fun GetInterfaceIDs :: "channel_ids \<Rightarrow> Stage \<Rightarrow> int \<times> int" where
  "GetInterfaceIDs ids (WhiteBalance cfg) = (SingleImage_ID ids, SingleImage_ID ids)"
| "GetInterfaceIDs ids (ViewportAdjust cfg) = (SingleImage_ID ids, SingleImage_ID ids)"
| "GetInterfaceIDs ids (BinaryMask cfg) = (SingleImage_ID ids, SingleImage_ID ids)"
| "GetInterfaceIDs ids (Consolidation cfg) = (Snapshot_ID ids, outChannelId cfg)"
| "GetInterfaceIDs ids (RigidSegmentation cfg) = (DoubleImage_ID ids, Segmentation_ID ids)"
| "GetInterfaceIDs ids (DBSCANSegmentation cfg) = (DoubleImage_ID ids, Segmentation_ID ids)"
| "GetInterfaceIDs ids (PlantAnalysis cfg) = (Segmentation_ID ids, Snapshot_ID ids)"

subsection \<open>The single-image stages\<close>

definition WhiteBalance_Invoke ::
  "'a pcv \<Rightarrow> WhiteBalanceConfig \<Rightarrow> 'a StageChannel \<Rightarrow> error + (string \<times> 'a StageChannel) option" where
  "WhiteBalance_Invoke pcv cfg inData =
     bindE (get_img inData) (\<lambda>wbImg.
       let oImg = white_balance pcv wbImg (roi cfg);
           oChannel = SingleImageChannel (PyObj oImg)
       in Inr (Some (GetName (WhiteBalance cfg), oChannel)))"

definition ViewportAdjust_Invoke ::
  "'a pcv \<Rightarrow> ViewportAdjustConfig \<Rightarrow> 'a StageChannel \<Rightarrow> error + (string \<times> 'a StageChannel) option" where
  "ViewportAdjust_Invoke pcv cfg inData =
     bindE (get_img inData) (\<lambda>vaImg.
       let turned = rotate_img pcv vaImg (rotate_deg cfg);
           oImg = shift_img pcv (PyObj turned) (shift cfg) (side cfg);
           oChannel = SingleImageChannel (PyObj oImg)
       in Inr (Some (GetName (ViewportAdjust cfg), oChannel)))"

definition BinaryMask_Invoke ::
  "'a pcv \<Rightarrow> BinaryMaskConfig \<Rightarrow> 'a StageChannel \<Rightarrow> error + (string \<times> 'a StageChannel) option" where
  "BinaryMask_Invoke pcv cfg inData =
     bindE (get_img inData) (\<lambda>bmImg.
       let chan = rgb2gray_lab pcv bmImg (channel cfg);
           thre = threshold_binary pcv (PyObj chan) (threshold cfg) (mx cfg) (obj cfg);
           oImg = fill_img pcv (PyObj thre) (fill cfg);
           oChannel = SingleImageChannel (PyObj oImg)
       in Inr (Some (GetName (BinaryMask cfg), oChannel)))"

subsection \<open>Consolidation\<close>

text \<open>
  \<^verbatim>\<open>FindOutput\<close>: the first entry of the history with the requested name. For \<^verbatim>\<open>"Disk"\<close>
  it reads \<^verbatim>\<open>entry[1].raw.rgb\<close>, which only a \<^verbatim>\<open>DataUnit\<close> has, otherwise \<^verbatim>\<open>entry[1].img\<close>,
  which only a \<^verbatim>\<open>SingleImageChannel\<close> has. After the loop the source returns the integer 0.
\<close>

fun FindOutput :: "string \<Rightarrow> 'a StageEntry list \<Rightarrow> error + 'a pyval" where
  "FindOutput stageName [] = Inr (PyInt 0)"
| "FindOutput stageName (entry # rest) =
     (if fst entry = stageName then
        (if stageName = ''Disk'' then
           (case snd entry of
              DataUnitValue d \<Rightarrow> Inr (rgb (raw d))
            | ChannelValue c \<Rightarrow> Inl AttributeError)
         else
           (case snd entry of
              DataUnitValue d \<Rightarrow> Inl AttributeError
            | ChannelValue c \<Rightarrow> get_img c))
      else FindOutput stageName rest)"

text \<open>\<^verbatim>\<open>csInput.formatted[0][1].meta.rgbFile\<close>\<close>

definition first_rgbFile :: "'a StageEntry list \<Rightarrow> error + string" where
  "first_rgbFile formatted =
     bindE (index formatted 0) (\<lambda>entry.
       case snd entry of
         DataUnitValue d \<Rightarrow> Inr (rgbFile (meta d))
       | ChannelValue c \<Rightarrow> Inl AttributeError)"

text \<open>
  \<^verbatim>\<open>Consolidation.Invoke\<close> has an \<^verbatim>\<open>if\<close> and an \<^verbatim>\<open>elif\<close> and no \<^verbatim>\<open>else\<close>: with any other
  \<^verbatim>\<open>outChannelId\<close> the function body ends and Python returns \<^verbatim>\<open>None\<close>, here \<open>Inr None\<close>.
  The arguments are evaluated left to right.
\<close>

definition Consolidation_Invoke ::
  "channel_ids \<Rightarrow> ConsolidationConfig \<Rightarrow> 'a StageChannel \<Rightarrow> error + (string \<times> 'a StageChannel) option" where
  "Consolidation_Invoke ids cfg inData =
     (if outChannelId cfg = SingleImage_ID ids then
        bindE (index (stageNames cfg) 0) (\<lambda>name0.
        bindE (get_formatted inData) (\<lambda>formatted.
        bindE (FindOutput name0 formatted) (\<lambda>found.
          Inr (Some (GetName (Consolidation cfg), SingleImageChannel found)))))
      else if outChannelId cfg = DoubleImage_ID ids then
        bindE (index (stageNames cfg) 0) (\<lambda>name0.
        bindE (get_formatted inData) (\<lambda>formatted.
        bindE (FindOutput name0 formatted) (\<lambda>primary.
        bindE (index (stageNames cfg) 1) (\<lambda>name1.
        bindE (FindOutput name1 formatted) (\<lambda>secondary.
        bindE (first_rgbFile formatted) (\<lambda>tag.
          Inr (Some (GetName (Consolidation cfg), DoubleImageChannel primary secondary tag))))))))
      else Inr None)"

subsection \<open>RigidSegmentation\<close>

text \<open>
  The loop \<^verbatim>\<open>for i in range(0, len(rois))\<close>, over the list of its indices. \<^verbatim>\<open>rois[i]\<close> is in
  range; \<^verbatim>\<open>roiH[i]\<close> raises when the hierarchy list is shorter.
\<close>

fun RigidSegmentation_loop ::
  "'a pcv \<Rightarrow> 'a pyval \<Rightarrow> 'a \<Rightarrow> 'a \<Rightarrow> 'a list \<Rightarrow> 'a list \<Rightarrow> nat list
     \<Rightarrow> 'a pyval list \<Rightarrow> 'a pyval list \<Rightarrow> error + 'a pyval list \<times> 'a pyval list" where
  "RigidSegmentation_loop pcv primary objs objH rois roiH [] oContours oMasks =
     Inr (oContours, oMasks)"
| "RigidSegmentation_loop pcv primary objs objH rois roiH (i # rest) oContours oMasks =
     bindE (index roiH i) (\<lambda>roiH_i.
       let (xCont, xHier, unused, pArea) = roi_objects pcv primary (rois ! i) roiH_i objs objH
       in if pArea \<le> 0 then
            RigidSegmentation_loop pcv primary objs objH rois roiH rest
              (oContours @ [PyEmptyList]) (oMasks @ [PyEmptyList])
          else
            let (pCont, pMask) = object_composition pcv primary xCont xHier
            in RigidSegmentation_loop pcv primary objs objH rois roiH rest
                 (oContours @ [PyObj pCont]) (oMasks @ [PyObj pMask]))"

text \<open>
  The ROIs of a configuration: the \<^verbatim>\<open>if\<close>/\<^verbatim>\<open>elif\<close> on \<^verbatim>\<open>GetRigidType\<close>, which is 0 for
  the grid configuration and 1 for the custom one. The grid call passes the start point,
  the radius, the spacing and the numbers of rows and columns; the custom call passes the
  centres and the radius.
\<close>

fun configured_rois :: "'a pcv \<Rightarrow> 'a pyval \<Rightarrow> RigidSegmentationConfig \<Rightarrow> 'a list \<times> 'a list" where
  "configured_rois pcv primary (RigidSegmentationGridConfig start radius spacing rows cols roiType) =
     roi_multi pcv primary (Start start) radius (Some (spacing, rows, cols))"
| "configured_rois pcv primary (RigidSegmentationCustomConfig centers radius) =
     roi_multi pcv primary (Centers centers) radius None"

definition RigidSegmentation_Invoke ::
  "'a pcv \<Rightarrow> RigidSegmentationConfig \<Rightarrow> 'a StageChannel \<Rightarrow> error + (string \<times> 'a StageChannel) option" where
  "RigidSegmentation_Invoke pcv cfg inData =
     bindE (get_imgPrimary inData) (\<lambda>primary.
     bindE (get_imgSecondary inData) (\<lambda>secondary.
       let (objs, objH) = find_objects pcv primary secondary;
           (rois, roiH) = configured_rois pcv primary cfg
       in bindE (RigidSegmentation_loop pcv primary objs objH rois roiH [0..<length rois] [] [])
            (\<lambda>(oContours, oMasks).
          bindE (get_tag inData) (\<lambda>tag.
            Inr (Some (GetName (RigidSegmentation cfg),
                       SegmentationChannel oContours oMasks primary tag))))))"

subsection \<open>DBSCANSegmentation\<close>

text \<open>
  The nested function \<^verbatim>\<open>extractSubMasks\<close>. Its recursive call passes the keyword
  \<^verbatim>\<open>topLevelMsk\<close>, but the parameter is named \<^verbatim>\<open>topLvlMask\<close>: the call raises
  \<^verbatim>\<open>TypeError\<close> before anything is evaluated. \<^verbatim>\<open>Invoke\<close> defines the function and never
  calls it.
\<close>

fun extractSubMasks ::
  "'a pcv \<Rightarrow> DBSCANSegmentationConfig \<Rightarrow> 'a list \<Rightarrow> 'a list \<Rightarrow> error + 'a list" where
  "extractSubMasks pcv cfg [] masks = Inr masks"
| "extractSubMasks pcv cfg (msk # rest) masks =
     (let sbMsks = snd (spatial_clustering pcv (PyObj msk) (minClusterSize cfg) (epsilon cfg))
      in if length sbMsks = 1 then extractSubMasks pcv cfg rest (masks @ [msk])
         else Inl TypeError)"

text \<open>The loop \<^verbatim>\<open>for mask in cMsks\<close> of \<^verbatim>\<open>Invoke\<close>.\<close>

fun DBSCANSegmentation_loop ::
  "'a pcv \<Rightarrow> 'a pyval \<Rightarrow> 'a list \<Rightarrow> 'a pyval list \<Rightarrow> 'a pyval list
     \<Rightarrow> 'a pyval list \<times> 'a pyval list" where
  "DBSCANSegmentation_loop pcv primary [] retMsks retCnts = (retMsks, retCnts)"
| "DBSCANSegmentation_loop pcv primary (msk # rest) retMsks retCnts =
     (let cnt = roi_from_binary_image pcv primary msk
      in DBSCANSegmentation_loop pcv primary rest (retMsks @ [PyObj msk]) (retCnts @ [PyObj cnt]))"

definition DBSCANSegmentation_Invoke ::
  "'a pcv \<Rightarrow> DBSCANSegmentationConfig \<Rightarrow> 'a StageChannel \<Rightarrow> error + (string \<times> 'a StageChannel) option" where
  "DBSCANSegmentation_Invoke pcv cfg inData =
     bindE (get_imgSecondary inData) (\<lambda>secondary.
       let cMsks = snd (spatial_clustering pcv secondary (minClusterSize cfg) (epsilon cfg))
       in bindE (get_imgPrimary inData) (\<lambda>primary.
            let (retMsks, retCnts) = DBSCANSegmentation_loop pcv primary cMsks [] []
            in bindE (get_tag inData) (\<lambda>tag.
                 Inr (Some (GetName (DBSCANSegmentation cfg),
                            SegmentationChannel retCnts retMsks primary tag)))))"

subsection \<open>PlantAnalysis\<close>

text \<open>
  The loop reads \<^verbatim>\<open>paInput.contours[i]\<close> for every index of \<^verbatim>\<open>paInput.masks\<close>, so it raises
  when there are fewer contours than masks. The output is an empty snapshot.
\<close>

definition PlantAnalysis_Invoke ::
  "'a pcv \<Rightarrow> PlantAnalysisConfig \<Rightarrow> 'a StageChannel \<Rightarrow> error + (string \<times> 'a StageChannel) option" where
  "PlantAnalysis_Invoke pcv cfg inData =
     bindE (get_masks inData) (\<lambda>masks.
     bindE (get_rgb inData) (\<lambda>rgbImg.
     bindE (get_contours inData) (\<lambda>contours.
       if length contours < length masks then Inl IndexError
       else
         bindE (get_tag inData) (\<lambda>tag.
           case save_results pcv cfg tag (length masks) of
             Some e \<Rightarrow> Inl e
           | None \<Rightarrow> Inr (Some (GetName (PlantAnalysis cfg), SnapshotChannel []))))))"

subsection \<open>Dispatch\<close>

text \<open>\<^verbatim>\<open>stage.Invoke(inData)\<close>: the method of the stage's class.\<close>

fun Invoke ::
  "channel_ids \<Rightarrow> 'a pcv \<Rightarrow> Stage \<Rightarrow> 'a StageChannel \<Rightarrow> error + (string \<times> 'a StageChannel) option" where
  "Invoke ids pcv (WhiteBalance cfg) inData = WhiteBalance_Invoke pcv cfg inData"
| "Invoke ids pcv (ViewportAdjust cfg) inData = ViewportAdjust_Invoke pcv cfg inData"
| "Invoke ids pcv (BinaryMask cfg) inData = BinaryMask_Invoke pcv cfg inData"
| "Invoke ids pcv (Consolidation cfg) inData = Consolidation_Invoke ids cfg inData"
| "Invoke ids pcv (RigidSegmentation cfg) inData = RigidSegmentation_Invoke pcv cfg inData"
| "Invoke ids pcv (DBSCANSegmentation cfg) inData = DBSCANSegmentation_Invoke pcv cfg inData"
| "Invoke ids pcv (PlantAnalysis cfg) inData = PlantAnalysis_Invoke pcv cfg inData"

section \<open>Pipeline.py\<close>

record Options =
  image_file :: string
  segname :: string
  debug_mode :: string
  visualize :: bool
  writeimg :: bool
  result_file :: string
  outdir :: string

record PipelineConfig =
  options :: Options
  stages :: "Stage list"

record 'a FormattedData =
  base :: "'a RawData"
  proc :: "'a StageEntry list"

text \<open>
  \<^verbatim>\<open>IsCompatible\<close> reads \<^verbatim>\<open>stages[0]\<close> first, which raises on an empty list, then walks
  \<^verbatim>\<open>stages[1:]\<close> with the interface ids of the previous stage in \<^verbatim>\<open>cIds\<close>.
\<close>

fun IsCompatible_loop :: "channel_ids \<Rightarrow> int \<times> int \<Rightarrow> Stage list \<Rightarrow> bool" where
  "IsCompatible_loop ids cIds [] = True"
| "IsCompatible_loop ids cIds (nxt # rest) =
     (let nIds = GetInterfaceIDs ids nxt
      in if fst nIds \<noteq> Snapshot_ID ids \<and> snd cIds \<noteq> fst nIds then False
         else IsCompatible_loop ids nIds rest)"

definition IsCompatible :: "channel_ids \<Rightarrow> Stage list \<Rightarrow> error + bool" where
  "IsCompatible ids stgs =
     bindE (index stgs 0) (\<lambda>curr.
       Inr (IsCompatible_loop ids (GetInterfaceIDs ids curr) (tl stgs)))"

text \<open>
  The loop of \<^verbatim>\<open>Format\<close> over the stages, with the running channel \<^verbatim>\<open>inData\<close> and the
  history \<^verbatim>\<open>intmed\<close>. A stage that returns \<^verbatim>\<open>None\<close> is appended and then subscripted
  (\<^verbatim>\<open>out[1]\<close>), which raises \<^verbatim>\<open>TypeError\<close>.
\<close>

fun Format_loop ::
  "channel_ids \<Rightarrow> 'a pcv \<Rightarrow> Stage list \<Rightarrow> 'a StageChannel \<Rightarrow> 'a StageEntry list
     \<Rightarrow> error + 'a StageEntry list" where
  "Format_loop ids pcv [] inData intmed = Inr intmed"
| "Format_loop ids pcv (stage # rest) inData intmed =
     (let inData' = (if fst (GetInterfaceIDs ids stage) = Snapshot_ID ids
                     then SnapshotChannel intmed else inData)
      in bindE (Invoke ids pcv stage inData') (\<lambda>out.
           case out of
             None \<Rightarrow> Inl TypeError
           | Some (name, outChannel) \<Rightarrow>
               Format_loop ids pcv rest outChannel (intmed @ [(name, ChannelValue outChannel)])))"

text \<open>\<^verbatim>\<open>Format\<close> returns the integer 0 for a unit that is not valid.\<close>

definition Format ::
  "channel_ids \<Rightarrow> 'a pcv \<Rightarrow> PipelineConfig \<Rightarrow> 'a DataUnit \<Rightarrow> error + 'a FormattedData pyval" where
  "Format ids pcv cfg data =
     (if \<not> valid (raw data) then Inr (PyInt 0)
      else
        bindE (Format_loop ids pcv (stages cfg) (SingleImageChannel (rgb (raw data)))
                 [(''Disk'', DataUnitValue data)]) (\<lambda>intmed.
          Inr (PyObj \<lparr>base = raw data, proc = intmed\<rparr>)))"

fun FormatSet_loop ::
  "channel_ids \<Rightarrow> 'a pcv \<Rightarrow> PipelineConfig \<Rightarrow> 'a DataUnit list \<Rightarrow> 'a FormattedData pyval list
     \<Rightarrow> error + 'a FormattedData pyval list" where
  "FormatSet_loop ids pcv cfg [] done_list = Inr done_list"
| "FormatSet_loop ids pcv cfg (unit # rest) done_list =
     bindE (Format ids pcv cfg unit) (\<lambda>r. FormatSet_loop ids pcv cfg rest (done_list @ [r]))"

definition FormatSet ::
  "channel_ids \<Rightarrow> 'a pcv \<Rightarrow> PipelineConfig \<Rightarrow> 'a DataUnit list
     \<Rightarrow> error + 'a FormattedData pyval list" where
  "FormatSet ids pcv cfg data = FormatSet_loop ids pcv cfg data []"

section \<open>Example values\<close>

text \<open>
  Concrete inputs for the instances below: the identifiers of one run, a loaded unit, a
  night image as the loader builds it (\<^verbatim>\<open>RawData(False, 0)\<close>), and an image library
  over numbered arrays. Its clustering splits array 7 into the single mask 8, and mask 8
  into the masks 81 and 82, which are stable; its second ROI (number 21) covers no object.
\<close>

definition example_ids :: channel_ids where
  "example_ids = \<lparr>SingleImage_ID = 1, DoubleImage_ID = 2, Snapshot_ID = 3, Segmentation_ID = 4\<rparr>"

definition example_unit :: "nat DataUnit" where
  "example_unit = \<lparr>raw = \<lparr>valid = True, rgb = PyObj 1\<rparr>,
                    meta = \<lparr>timestamp = '''', rgbFile = ''image_1.jpg''\<rparr>\<rparr>"

definition night_unit :: "nat DataUnit" where
  "night_unit = \<lparr>raw = \<lparr>valid = False, rgb = PyInt 0\<rparr>,
                  meta = \<lparr>timestamp = '''', rgbFile = ''image_2.jpg''\<rparr>\<rparr>"

definition example_clusters :: "nat pyval \<Rightarrow> nat list" where
  "example_clusters m =
     (if m = PyObj 7 then [8] else if m = PyObj 8 then [81, 82]
      else case m of PyObj x \<Rightarrow> [x] | _ \<Rightarrow> [])"

text \<open>
  The example library's \<^verbatim>\<open>pcv.roi.multi\<close>: \<open>rows * cols\<close> ROIs for a start point with a
  grid, one ROI per centre for a list of centres, numbered from 20, with hierarchies
  numbered from 30.
\<close>

fun example_roi_count :: "coord \<Rightarrow> ((int \<times> int) \<times> int \<times> int) option \<Rightarrow> nat" where
  "example_roi_count (Start p) (Some (sp, nr, nc)) = nat (nr * nc)"
| "example_roi_count (Start p) None = 0"
| "example_roi_count (Centers cs) g = length cs"

definition example_roi_multi ::
  "coord \<Rightarrow> ((int \<times> int) \<times> int \<times> int) option \<Rightarrow> nat list \<times> nat list" where
  "example_roi_multi c g =
     (map (\<lambda>k. 20 + k) [0..<example_roi_count c g],
      map (\<lambda>k. 30 + k) [0..<example_roi_count c g])"

definition example_pcv :: "nat pcv" where
  "example_pcv =
     \<lparr>white_balance = (\<lambda>i r. 11),
      rotate_img = (\<lambda>i d. 12),
      shift_img = (\<lambda>i n s. 13),
      rgb2gray_lab = (\<lambda>i c. 14),
      threshold_binary = (\<lambda>i t m ob. 15),
      fill_img = (\<lambda>i n. 16),
      find_objects = (\<lambda>i m. (17, 18)),
      roi_multi = (\<lambda>i c r g. example_roi_multi c g),
      roi_objects = (\<lambda>i r h os oh. (r + 100, h + 100, 0, if r = 21 then 0 else 5)),
      object_composition = (\<lambda>i c h. (c + 1000, h + 1000)),
      spatial_clustering = (\<lambda>m k e. (0, example_clusters m)),
      roi_from_binary_image = (\<lambda>i m. m + 500),
      save_results = (\<lambda>c t n. None)\<rparr>"

definition example_options :: Options where
  "example_options =
     \<lparr>image_file = ''image_1.jpg'', segname = ''image_pid_'', debug_mode = ''plot'',
      visualize = True, writeimg = True, result_file = ''results.csv'', outdir = ''./''\<rparr>"

text \<open>
  The DBSCAN pipeline of \<^verbatim>\<open>Main.py\<close> (binary mask, consolidation of the disk image with
  the mask, clustering, analysis), and what \<^verbatim>\<open>Format\<close> returns for the example unit.
\<close>

definition example_pipeline :: PipelineConfig where
  "example_pipeline =
     \<lparr>options = example_options,
      stages = [BinaryMask \<lparr>threshold = 135, mx = 255, obj = ''light'', fill = 200, channel = ''b''\<rparr>,
                Consolidation \<lparr>stageNames = [''Disk'', ''BinaryMask''], outChannelId = 2\<rparr>,
                DBSCANSegmentation \<lparr>minClusterSize = 5, epsilon = 0.059\<rparr>,
                PlantAnalysis \<lparr>filetype = ''csv'', outfile = ''data''\<rparr>]\<rparr>"

definition example_formatted :: "nat FormattedData" where
  "example_formatted =
     \<lparr>base = raw example_unit,
      proc = [(''Disk'', DataUnitValue example_unit),
              (''BinaryMask'', ChannelValue (SingleImageChannel (PyObj 16))),
              (''Consolidation'',
                 ChannelValue (DoubleImageChannel (PyObj 1) (PyObj 16) ''image_1.jpg'')),
              (''DBSCANSegmentation'',
                 ChannelValue (SegmentationChannel [PyObj 516] [PyObj 16] (PyObj 1) ''image_1.jpg'')),
              (''PlantAnalysis'', ChannelValue (SnapshotChannel []))]\<rparr>"

text \<open>What one iteration of the loop of \<^verbatim>\<open>RigidSegmentation.Invoke\<close> appends to its two lists.\<close>

definition roi_result :: "'a pcv \<Rightarrow> 'a pyval \<Rightarrow> 'a \<Rightarrow> 'a \<Rightarrow> 'a \<Rightarrow> 'a \<Rightarrow> 'a pyval \<times> 'a pyval" where
  "roi_result pcv primary objs objH r h =
     (case roi_objects pcv primary r h objs objH of
        (xCont, xHier, unused, pArea) \<Rightarrow>
          if pArea \<le> 0 then (PyEmptyList, PyEmptyList)
          else (PyObj (fst (object_composition pcv primary xCont xHier)),
                PyObj (snd (object_composition pcv primary xCont xHier))))"

section \<open>Basic facts\<close>

lemma bindE_simps [simp]:
  "bindE (Inl e) f = Inl e"
  "bindE (Inr x) f = f x"
  by (simp_all add: bindE_def)

section \<open>Compatibility of a stage list\<close>

lemma IsCompatible_loop_pairs:
  "IsCompatible_loop ids (GetInterfaceIDs ids cur) rest =
     (\<forall>i. Suc i < length (cur # rest) \<longrightarrow>
        (fst (GetInterfaceIDs ids ((cur # rest) ! Suc i)) = Snapshot_ID ids
         \<or> snd (GetInterfaceIDs ids ((cur # rest) ! i))
             = fst (GetInterfaceIDs ids ((cur # rest) ! Suc i))))"
proof (induction rest arbitrary: cur)
  case Nil
  show ?case by simp
next
  case (Cons nxt rest)
  have split: "(\<forall>i. Suc i < length (cur # nxt # rest) \<longrightarrow> P i) =
      (P 0 \<and> (\<forall>i. Suc i < length (nxt # rest) \<longrightarrow> P (Suc i)))" for P :: "nat \<Rightarrow> bool"
  proof
    assume a: "\<forall>i. Suc i < length (cur # nxt # rest) \<longrightarrow> P i"
    show "P 0 \<and> (\<forall>i. Suc i < length (nxt # rest) \<longrightarrow> P (Suc i))"
      using a by auto
  next
    assume b: "P 0 \<and> (\<forall>i. Suc i < length (nxt # rest) \<longrightarrow> P (Suc i))"
    show "\<forall>i. Suc i < length (cur # nxt # rest) \<longrightarrow> P i"
    proof (intro allI impI)
      fix i assume "Suc i < length (cur # nxt # rest)"
      then show "P i" using b by (cases i) auto
    qed
  qed
  show ?case
    unfolding split
    using Cons.IH [of nxt] by (auto simp: Let_def)
qed

text \<open>
  C1 (as amended). For every non-empty stage list, \<^verbatim>\<open>IsCompatible\<close> returns true exactly
  when every consecutive pair \<open>(s[i], s[i+1])\<close> has \<open>inId = Snapshot.ID\<close> or
  \<open>outId = inId\<close>, where \<open>outId\<close> is the second interface id of \<open>s[i]\<close> and \<open>inId\<close> the
  first of \<open>s[i+1]\<close>; a list of one stage is always accepted.
\<close>

theorem IsCompatible_pairs:
  "(stgs \<noteq> [] \<longrightarrow>
      IsCompatible ids stgs =
        Inr (\<forall>i. Suc i < length stgs \<longrightarrow>
               (fst (GetInterfaceIDs ids (stgs ! Suc i)) = Snapshot_ID ids
                \<or> snd (GetInterfaceIDs ids (stgs ! i)) = fst (GetInterfaceIDs ids (stgs ! Suc i)))))
   \<and> IsCompatible ids [s] = Inr True"
proof (intro conjI impI)
  assume "stgs \<noteq> []"
  then obtain cur rest where s: "stgs = cur # rest" by (cases stgs) auto
  show "IsCompatible ids stgs =
        Inr (\<forall>i. Suc i < length stgs \<longrightarrow>
               (fst (GetInterfaceIDs ids (stgs ! Suc i)) = Snapshot_ID ids
                \<or> snd (GetInterfaceIDs ids (stgs ! i)) = fst (GetInterfaceIDs ids (stgs ! Suc i))))"
    unfolding s IsCompatible_def index_def
    using IsCompatible_loop_pairs [of ids cur rest] by simp
next
  show "IsCompatible ids [s] = Inr True"
    by (simp add: IsCompatible_def index_def)
qed

text \<open>
  An instance: a binary mask followed by a consolidation into a double image is
  accepted (the consolidation takes a snapshot); a plant analysis followed by a white
  balance is rejected.
\<close>

theorem IsCompatible_pairs_witness:
  "IsCompatible example_ids
     [BinaryMask \<lparr>threshold = 135, mx = 255, obj = ''light'', fill = 200, channel = ''b''\<rparr>,
      Consolidation \<lparr>stageNames = [''Disk'', ''BinaryMask''], outChannelId = 2\<rparr>] = Inr True
   \<and> IsCompatible example_ids
       [PlantAnalysis \<lparr>filetype = ''csv'', outfile = ''data''\<rparr>,
        WhiteBalance \<lparr>roi = (220, 87, 60, 10)\<rparr>] = Inr False"
  using
    IsCompatible_pairs [of
      "[BinaryMask \<lparr>threshold = 135, mx = 255, obj = ''light'', fill = 200, channel = ''b''\<rparr>,
        Consolidation \<lparr>stageNames = [''Disk'', ''BinaryMask''], outChannelId = 2\<rparr>]" example_ids]
    IsCompatible_pairs [of
      "[PlantAnalysis \<lparr>filetype = ''csv'', outfile = ''data''\<rparr>,
        WhiteBalance \<lparr>roi = (220, 87, 60, 10)\<rparr>]" example_ids]
  by (simp add: example_ids_def)

text \<open>
  On the empty list the check does not report incompatibility: \<^verbatim>\<open>stages[0]\<close> raises
  \<^verbatim>\<open>IndexError\<close>.
\<close>

theorem IsCompatible_empty_raises:
  "IsCompatible example_ids [] = Inl IndexError \<and> IsCompatible example_ids [] \<noteq> Inr False"
  by (simp add: IsCompatible_def index_def)

section \<open>Channel identifiers\<close>

text \<open>
  C9 (as amended). The four identifiers are four successive 256-bit draws made when the
  module is imported, in the order SingleImage, DoubleImage, Snapshot, Segmentation:
  each lies in \<open>[0, 2^256)\<close>, and any four such values, distinct or not, are the
  identifiers of the run whose generator delivers them.
\<close>

theorem import_StageChannel_draws:
  "(0 \<le> SingleImage_ID (import_StageChannel g) \<and> SingleImage_ID (import_StageChannel g) < 2 ^ 256
    \<and> 0 \<le> DoubleImage_ID (import_StageChannel g) \<and> DoubleImage_ID (import_StageChannel g) < 2 ^ 256
    \<and> 0 \<le> Snapshot_ID (import_StageChannel g) \<and> Snapshot_ID (import_StageChannel g) < 2 ^ 256
    \<and> 0 \<le> Segmentation_ID (import_StageChannel g) \<and> Segmentation_ID (import_StageChannel g) < 2 ^ 256)
   \<and> (0 \<le> a \<and> a < 2 ^ 256 \<and> 0 \<le> b \<and> b < 2 ^ 256 \<and> 0 \<le> c \<and> c < 2 ^ 256 \<and> 0 \<le> d \<and> d < 2 ^ 256
        \<longrightarrow> import_StageChannel (a ## b ## c ## d ## g')
            = \<lparr>SingleImage_ID = a, DoubleImage_ID = b, Snapshot_ID = c, Segmentation_ID = d\<rparr>)"
  by (simp add: import_StageChannel_def getrandbits_def)

text \<open>An instance: the run whose first four draws are 1, 2, 3 and 4.\<close>

theorem import_StageChannel_draws_witness:
  "import_StageChannel (1 ## 2 ## 3 ## 4 ## sconst 0) = example_ids"
  using import_StageChannel_draws [of "sconst 0" 1 2 3 4 "sconst 0"]
  by (simp add: example_ids_def)

text \<open>
  A generator that delivers 0 four times gives all four variants the identifier 0, and
  the run of a generator that delivers 1 gives SingleImage another identifier than that
  run: the identifiers are neither distinct in every run nor the same in every run.
\<close>

theorem import_StageChannel_not_stable:
  "\<not> distinct [SingleImage_ID (import_StageChannel (sconst 0)),
                DoubleImage_ID (import_StageChannel (sconst 0)),
                Snapshot_ID (import_StageChannel (sconst 0)),
                Segmentation_ID (import_StageChannel (sconst 0))]
   \<and> SingleImage_ID (import_StageChannel (sconst 0)) \<noteq> SingleImage_ID (import_StageChannel (sconst 1))"
  by (simp add: import_StageChannel_def getrandbits_def)

section \<open>Consolidation\<close>

lemma FindOutput_find:
  "FindOutput stageName history =
     (case find (\<lambda>entry. fst entry = stageName) history of
        None \<Rightarrow> Inr (PyInt 0)
      | Some entry \<Rightarrow>
          (if stageName = ''Disk'' then
             (case snd entry of
                DataUnitValue d \<Rightarrow> Inr (rgb (raw d))
              | ChannelValue c \<Rightarrow> Inl AttributeError)
           else
             (case snd entry of
                DataUnitValue d \<Rightarrow> Inl AttributeError
              | ChannelValue c \<Rightarrow> get_img c)))"
  by (induction history) auto

text \<open>
  C4 (as amended). For every name and history such that no history entry's name equals
  the requested name, \<^verbatim>\<open>FindOutput\<close> raises nothing and returns the integer 0.
\<close>

theorem FindOutput_absent:
  "\<forall>entry \<in> set history. fst entry \<noteq> stageName \<Longrightarrow> FindOutput stageName history = Inr (PyInt 0)"
  by (induction history) auto

theorem FindOutput_absent_witness:
  "FindOutput ''ViewportAdjust''
     [(''Disk'', DataUnitValue example_unit),
      (''BinaryMask'', ChannelValue (SingleImageChannel (PyObj 16)))] = Inr (PyInt 0)"
  using FindOutput_absent [of
      "[(''Disk'', DataUnitValue example_unit),
        (''BinaryMask'', ChannelValue (SingleImageChannel (PyObj 16)))]" "''ViewportAdjust''"]
  by simp

text \<open>
  The lookup of a name that the history does not hold is no failure: it returns 0, and a
  consolidation into a single image stores that 0 as the image of its output channel.
\<close>

theorem FindOutput_returns_sentinel:
  "FindOutput ''BinaryMask'' [(''Disk'', DataUnitValue example_unit)] = Inr (PyInt 0)
   \<and> Consolidation_Invoke example_ids \<lparr>stageNames = [''BinaryMask''], outChannelId = 1\<rparr>
        (SnapshotChannel [(''Disk'', DataUnitValue example_unit)])
      = Inr (Some (''Consolidation'', SingleImageChannel (PyInt 0)))"
  by (simp add: Consolidation_Invoke_def example_ids_def index_def)

text \<open>
  C8. A consolidation configured with the names \<^verbatim>\<open>["Disk", "BinaryMask"]\<close> and the
  DoubleImage identifier, on a history whose first entry named \<^verbatim>\<open>"Disk"\<close> holds a unit,
  whose first entry named \<^verbatim>\<open>"BinaryMask"\<close> holds a single image and whose first entry holds
  a unit, returns the double image of that unit's raw image, that mask image and the
  first entry's file path. The identifiers of SingleImage and DoubleImage differ, as in
  every run whose first two draws differ: the SingleImage branch is tested first.
\<close>

theorem Consolidation_Disk_BinaryMask:
  assumes "stageNames cfg = [''Disk'', ''BinaryMask'']"
    and "outChannelId cfg = DoubleImage_ID ids"
    and "SingleImage_ID ids \<noteq> DoubleImage_ID ids"
    and "find (\<lambda>entry. fst entry = ''Disk'') history = Some (''Disk'', DataUnitValue disk)"
    and "find (\<lambda>entry. fst entry = ''BinaryMask'') history
           = Some (''BinaryMask'', ChannelValue (SingleImageChannel maskImg))"
    and "history ! 0 = (name0, DataUnitValue unit0)"
  shows "Invoke ids pcv (Consolidation cfg) (SnapshotChannel history)
           = Inr (Some (''Consolidation'',
                        DoubleImageChannel (rgb (raw disk)) maskImg (rgbFile (meta unit0))))"
proof -
  have ne: "history \<noteq> []" using assms(4) by auto
  have f0: "FindOutput ''Disk'' history = Inr (rgb (raw disk))"
    by (simp add: FindOutput_find assms(4))
  have f1: "FindOutput ''BinaryMask'' history = Inr maskImg"
    by (simp add: FindOutput_find assms(5))
  have t: "first_rgbFile history = Inr (rgbFile (meta unit0))"
    using ne assms(6) by (simp add: first_rgbFile_def index_def)
  show ?thesis
    using assms(1,2,3) f0 f1 t by (simp add: Consolidation_Invoke_def index_def)
qed

theorem Consolidation_Disk_BinaryMask_witness:
  "Invoke example_ids example_pcv
     (Consolidation \<lparr>stageNames = [''Disk'', ''BinaryMask''], outChannelId = 2\<rparr>)
     (SnapshotChannel [(''Disk'', DataUnitValue example_unit),
                       (''BinaryMask'', ChannelValue (SingleImageChannel (PyObj 16)))])
   = Inr (Some (''Consolidation'', DoubleImageChannel (PyObj 1) (PyObj 16) ''image_1.jpg''))"
  using Consolidation_Disk_BinaryMask [of
      "\<lparr>stageNames = [''Disk'', ''BinaryMask''], outChannelId = 2\<rparr>" example_ids
      "[(''Disk'', DataUnitValue example_unit),
        (''BinaryMask'', ChannelValue (SingleImageChannel (PyObj 16)))]"
      example_unit "PyObj 16" "''Disk''" example_unit example_pcv]
  by (simp add: example_ids_def example_unit_def)

lemma Consolidation_None:
  "outChannelId cfg \<noteq> SingleImage_ID ids \<Longrightarrow> outChannelId cfg \<noteq> DoubleImage_ID ids \<Longrightarrow>
     Consolidation_Invoke ids cfg inData = Inr None"
  by (simp add: Consolidation_Invoke_def)

lemma Consolidation_Some:
  "Consolidation_Invoke ids cfg inData = Inr (Some r) \<Longrightarrow>
     outChannelId cfg = SingleImage_ID ids \<or> outChannelId cfg = DoubleImage_ID ids"
  by (auto simp: Consolidation_Invoke_def split: if_splits)

text \<open>A stage that returns \<^verbatim>\<open>None\<close> on every input makes the loop of \<^verbatim>\<open>Format\<close> raise.\<close>

lemma Format_loop_None_stage:
  "stage \<in> set ss \<Longrightarrow> (\<And>inData. Invoke ids pcv stage inData = Inr None) \<Longrightarrow>
     \<exists>e. Format_loop ids pcv ss inData intmed = Inl e"
proof (induction ss arbitrary: inData intmed)
  case Nil
  then show ?case by simp
next
  case (Cons s ss)
  let ?in = "if fst (GetInterfaceIDs ids s) = Snapshot_ID ids then SnapshotChannel intmed else inData"
  show ?case
  proof (cases "Invoke ids pcv s ?in")
    case (Inl e)
    then show ?thesis by (simp add: Let_def)
  next
    case (Inr out)
    show ?thesis
    proof (cases out)
      case None
      with Inr show ?thesis by (simp add: Let_def)
    next
      case (Some p)
      obtain name ch where p: "p = (name, ch)" by (cases p)
      have "stage \<noteq> s" using Inr Some Cons.prems(2) [of ?in] by auto
      then have "stage \<in> set ss" using Cons.prems(1) by simp
      from Cons.IH [OF this Cons.prems(2)]
      obtain e where "Format_loop ids pcv ss ch (intmed @ [(name, ChannelValue ch)]) = Inl e"
        by blast
      with Inr Some p show ?thesis by (simp add: Let_def)
    qed
  qed
qed

text \<open>
  C10. With an \<^verbatim>\<open>outChannelId\<close> that is neither the SingleImage nor the DoubleImage
  identifier, \<^verbatim>\<open>Consolidation.Invoke\<close> returns \<^verbatim>\<open>None\<close> on every input; the loop of
  \<^verbatim>\<open>Format\<close> that reaches the stage raises \<^verbatim>\<open>TypeError\<close>, and \<^verbatim>\<open>Format\<close> of a valid unit
  raises for every pipeline that holds the stage. A returned (name, channel) pair implies
  one of the two identifiers.
\<close>

theorem Consolidation_output_precondition:
  "(outChannelId c \<noteq> SingleImage_ID ids \<and> outChannelId c \<noteq> DoubleImage_ID ids \<longrightarrow>
      Invoke ids pcv (Consolidation c) inData = Inr None
      \<and> Format_loop ids pcv (Consolidation c # rest) inData intmed = Inl TypeError
      \<and> (valid (raw data) \<and> Consolidation c \<in> set (stages cfg) \<longrightarrow>
           (\<exists>e. Format ids pcv cfg data = Inl e)))
   \<and> ((\<exists>r. Invoke ids pcv (Consolidation c) inData = Inr (Some r)) \<longrightarrow>
        outChannelId c = SingleImage_ID ids \<or> outChannelId c = DoubleImage_ID ids)"
proof (intro conjI impI)
  assume a: "outChannelId c \<noteq> SingleImage_ID ids \<and> outChannelId c \<noteq> DoubleImage_ID ids"
  then have none: "\<And>x. Invoke ids pcv (Consolidation c) x = Inr None"
    by (simp add: Consolidation_None)
  show "Invoke ids pcv (Consolidation c) inData = Inr None" by (rule none)
  show "Format_loop ids pcv (Consolidation c # rest) inData intmed = Inl TypeError"
    using a by (simp add: Consolidation_None Let_def)
  assume b: "valid (raw data) \<and> Consolidation c \<in> set (stages cfg)"
  from Format_loop_None_stage [of "Consolidation c" "stages cfg" ids pcv, OF _ none]
  obtain e where "Format_loop ids pcv (stages cfg) (SingleImageChannel (rgb (raw data)))
      [(''Disk'', DataUnitValue data)] = Inl e"
    using b by blast
  then show "\<exists>e. Format ids pcv cfg data = Inl e" using b by (simp add: Format_def)
next
  assume "\<exists>r. Invoke ids pcv (Consolidation c) inData = Inr (Some r)"
  then show "outChannelId c = SingleImage_ID ids \<or> outChannelId c = DoubleImage_ID ids"
    by (auto dest: Consolidation_Some)
qed

text \<open>
  An instance: a consolidation configured with the Segmentation identifier, after a
  binary mask.
\<close>

theorem Consolidation_output_precondition_witness:
  "Invoke example_ids example_pcv
     (Consolidation \<lparr>stageNames = [''Disk'', ''BinaryMask''], outChannelId = 4\<rparr>)
     (SnapshotChannel [(''Disk'', DataUnitValue example_unit)]) = Inr None
   \<and> Format example_ids example_pcv
       \<lparr>options = example_options,
        stages = [BinaryMask \<lparr>threshold = 135, mx = 255, obj = ''light'', fill = 200, channel = ''b''\<rparr>,
                  Consolidation \<lparr>stageNames = [''Disk'', ''BinaryMask''], outChannelId = 4\<rparr>]\<rparr>
       example_unit = Inl TypeError"
  using Consolidation_output_precondition [of
      "\<lparr>stageNames = [''Disk'', ''BinaryMask''], outChannelId = 4\<rparr>" example_ids example_pcv
      "SnapshotChannel [(''Disk'', DataUnitValue example_unit)]" "[]"
      "[(''Disk'', DataUnitValue example_unit),
        (''BinaryMask'', ChannelValue (SingleImageChannel (PyObj 16)))]"
      example_unit
      "\<lparr>options = example_options,
        stages = [BinaryMask \<lparr>threshold = 135, mx = 255, obj = ''light'', fill = 200, channel = ''b''\<rparr>,
                  Consolidation \<lparr>stageNames = [''Disk'', ''BinaryMask''], outChannelId = 4\<rparr>]\<rparr>"]
  by (simp add: example_ids_def example_unit_def example_pcv_def Format_def BinaryMask_Invoke_def
      Consolidation_Invoke_def Let_def)

section \<open>RigidSegmentation\<close>

lemma RigidSegmentation_loop_map:
  "\<forall>i \<in> set idxs. i < length roiH \<Longrightarrow>
     RigidSegmentation_loop pcv primary objs objH rois roiH idxs oContours oMasks =
       Inr (oContours @ map (\<lambda>i. fst (roi_result pcv primary objs objH (rois ! i) (roiH ! i))) idxs,
            oMasks @ map (\<lambda>i. snd (roi_result pcv primary objs objH (rois ! i) (roiH ! i))) idxs)"
proof (induction idxs arbitrary: oContours oMasks)
  case Nil
  show ?case by simp
next
  case (Cons i idxs)
  have i: "i < length roiH" using Cons.prems by simp
  have rest: "\<forall>i \<in> set idxs. i < length roiH" using Cons.prems by simp
  show ?case
    using i by (simp add: index_def Cons.IH [OF rest] roi_result_def split: prod.splits)
qed

lemma RigidSegmentation_loop_short:
  "i \<in> set idxs \<Longrightarrow> \<not> i < length roiH \<Longrightarrow>
     RigidSegmentation_loop pcv primary objs objH rois roiH idxs oContours oMasks = Inl IndexError"
proof (induction idxs arbitrary: oContours oMasks)
  case Nil
  then show ?case by simp
next
  case (Cons j idxs)
  show ?case
  proof (cases "j < length roiH")
    case False
    then show ?thesis by (simp add: index_def)
  next
    case True
    then have "i \<in> set idxs" using Cons.prems by auto
    from Cons.IH [OF this Cons.prems(2)] True
    show ?thesis by (simp add: index_def split: prod.splits)
  qed
qed

text \<open>
  C3. Let \<open>rois\<close> and \<open>roiH\<close> be the ROI list and the hierarchy list that
  \<^verbatim>\<open>pcv.roi.multi\<close> returns for the configuration: called with the start point, the
  radius, the spacing and the numbers of rows and columns of a grid configuration, or
  with the centres and the radius of a custom one. On a DoubleImage input, when there is
  a hierarchy for every ROI, \<^verbatim>\<open>RigidSegmentation.Invoke\<close> returns a Segmentation channel
  whose contour list and mask list have one entry per ROI; entry \<open>i\<close> is the empty list in
  both when ROI \<open>i\<close> covers an area \<open>\<le> 0\<close> of the detected objects, and the composed
  contour and mask of ROI \<open>i\<close> otherwise. When a hierarchy is missing the call raises and
  there is no output.
\<close>

theorem RigidSegmentation_positions:
  assumes "(cfg = RigidSegmentationGridConfig start radius spacing rows cols roiType
            \<and> roi_multi pcv primary (Start start) radius (Some (spacing, rows, cols)) = (rois, roiH))
         \<or> (cfg = RigidSegmentationCustomConfig centers radius
            \<and> roi_multi pcv primary (Centers centers) radius None = (rois, roiH))"
  shows "(length rois \<le> length roiH \<longrightarrow>
           (\<exists>cs ms. RigidSegmentation_Invoke pcv cfg (DoubleImageChannel primary secondary tag)
                      = Inr (Some (''RigidSegmentation'', SegmentationChannel cs ms primary tag))
              \<and> length cs = length rois \<and> length ms = length rois
              \<and> (\<forall>i < length rois.
                   case roi_objects pcv primary (rois ! i) (roiH ! i)
                          (fst (find_objects pcv primary secondary))
                          (snd (find_objects pcv primary secondary)) of
                     (xCont, xHier, unused, pArea) \<Rightarrow>
                       if pArea \<le> 0 then cs ! i = PyEmptyList \<and> ms ! i = PyEmptyList
                       else cs ! i = PyObj (fst (object_composition pcv primary xCont xHier))
                          \<and> ms ! i = PyObj (snd (object_composition pcv primary xCont xHier)))))
       \<and> (length roiH < length rois \<longrightarrow>
            RigidSegmentation_Invoke pcv cfg (DoubleImageChannel primary secondary tag) = Inl IndexError)"
proof (intro conjI impI)
  have conf: "configured_rois pcv primary cfg = (rois, roiH)"
    using assms by auto
  obtain objs objH where fo: "find_objects pcv primary secondary = (objs, objH)"
    by (cases "find_objects pcv primary secondary")
  {
    assume le: "length rois \<le> length roiH"
    let ?cs = "map (\<lambda>i. fst (roi_result pcv primary objs objH (rois ! i) (roiH ! i))) [0..<length rois]"
    let ?ms = "map (\<lambda>i. snd (roi_result pcv primary objs objH (rois ! i) (roiH ! i))) [0..<length rois]"
    have "\<forall>i \<in> set [0..<length rois]. i < length roiH" using le by auto
    from RigidSegmentation_loop_map [OF this, of pcv primary objs objH rois "[]" "[]"]
    have loop: "RigidSegmentation_loop pcv primary objs objH rois roiH [0..<length rois] [] []
                  = Inr (?cs, ?ms)" by simp
    have inv: "RigidSegmentation_Invoke pcv cfg (DoubleImageChannel primary secondary tag)
                 = Inr (Some (''RigidSegmentation'', SegmentationChannel ?cs ?ms primary tag))"
      by (simp add: RigidSegmentation_Invoke_def fo conf loop)
    have each: "\<forall>i < length rois.
                   case roi_objects pcv primary (rois ! i) (roiH ! i)
                          (fst (find_objects pcv primary secondary))
                          (snd (find_objects pcv primary secondary)) of
                     (xCont, xHier, unused, pArea) \<Rightarrow>
                       if pArea \<le> 0 then ?cs ! i = PyEmptyList \<and> ?ms ! i = PyEmptyList
                       else ?cs ! i = PyObj (fst (object_composition pcv primary xCont xHier))
                          \<and> ?ms ! i = PyObj (snd (object_composition pcv primary xCont xHier))"
      by (simp add: fo roi_result_def split: prod.splits)
    show "\<exists>cs ms. RigidSegmentation_Invoke pcv cfg (DoubleImageChannel primary secondary tag)
                      = Inr (Some (''RigidSegmentation'', SegmentationChannel cs ms primary tag))
              \<and> length cs = length rois \<and> length ms = length rois
              \<and> (\<forall>i < length rois.
                   case roi_objects pcv primary (rois ! i) (roiH ! i)
                          (fst (find_objects pcv primary secondary))
                          (snd (find_objects pcv primary secondary)) of
                     (xCont, xHier, unused, pArea) \<Rightarrow>
                       if pArea \<le> 0 then cs ! i = PyEmptyList \<and> ms ! i = PyEmptyList
                       else cs ! i = PyObj (fst (object_composition pcv primary xCont xHier))
                          \<and> ms ! i = PyObj (snd (object_composition pcv primary xCont xHier)))"
      apply (rule exI [of _ ?cs])
      apply (rule exI [of _ ?ms])
      using inv each by simp
  }
  {
    assume lt: "length roiH < length rois"
    have "length roiH \<in> set [0..<length rois]" using lt by simp
    from RigidSegmentation_loop_short [OF this, of roiH pcv primary objs objH rois "[]" "[]"]
    have "RigidSegmentation_loop pcv primary objs objH rois roiH [0..<length rois] [] []
            = Inl IndexError" by simp
    then show "RigidSegmentation_Invoke pcv cfg (DoubleImageChannel primary secondary tag) = Inl IndexError"
      by (simp add: RigidSegmentation_Invoke_def fo conf)
  }
qed

text \<open>
  Two instances, with a library that builds \<open>rows * cols\<close> ROIs for a grid and one ROI
  per centre for a list of centres, and whose second ROI covers no object: a 2 by 2 grid
  gives four positions and three centres give three, the second an empty placeholder in
  both.
\<close>

theorem RigidSegmentation_positions_witness:
  "RigidSegmentation_Invoke example_pcv
     (RigidSegmentationGridConfig (70, 150) 30 (90, 90) 2 2 ''partial'')
     (DoubleImageChannel (PyObj 1) (PyObj 16) ''image_1.jpg'')
   = Inr (Some (''RigidSegmentation'',
        SegmentationChannel [PyObj 1120, PyEmptyList, PyObj 1122, PyObj 1123]
                            [PyObj 1130, PyEmptyList, PyObj 1132, PyObj 1133]
                            (PyObj 1) ''image_1.jpg''))
   \<and> RigidSegmentation_Invoke example_pcv
       (RigidSegmentationCustomConfig [(139, 205), (220, 200), (306, 194)] 15)
       (DoubleImageChannel (PyObj 1) (PyObj 16) ''image_1.jpg'')
     = Inr (Some (''RigidSegmentation'',
          SegmentationChannel [PyObj 1120, PyEmptyList, PyObj 1122]
                              [PyObj 1130, PyEmptyList, PyObj 1132]
                              (PyObj 1) ''image_1.jpg''))"
proof
  have g: "roi_multi example_pcv (PyObj 1) (Start (70, 150)) 30 (Some ((90, 90), 2, 2))
           = ([20, 21, 22, 23], [30, 31, 32, 33])"
    by (simp add: example_pcv_def example_roi_multi_def upt_conv_Cons)
  from RigidSegmentation_positions [where cfg = "RigidSegmentationGridConfig (70, 150) 30 (90, 90) 2 2 ''partial''"
      and start = "(70, 150)" and radius = 30 and spacing = "(90, 90)" and rows = 2 and cols = 2
      and roiType = "''partial''" and pcv = example_pcv and primary = "PyObj 1"
      and rois = "[20, 21, 22, 23]" and roiH = "[30, 31, 32, 33]"
      and secondary = "PyObj 16" and tag = "''image_1.jpg''"] g
  obtain cs ms where
    inv: "RigidSegmentation_Invoke example_pcv
            (RigidSegmentationGridConfig (70, 150) 30 (90, 90) 2 2 ''partial'')
            (DoubleImageChannel (PyObj 1) (PyObj 16) ''image_1.jpg'')
          = Inr (Some (''RigidSegmentation'', SegmentationChannel cs ms (PyObj 1) ''image_1.jpg''))"
    and len: "length cs = 4" "length ms = 4"
    and each: "\<forall>i < 4. case roi_objects example_pcv (PyObj 1) ([20, 21, 22, 23] ! i) ([30, 31, 32, 33] ! i)
                          (fst (find_objects example_pcv (PyObj 1) (PyObj 16)))
                          (snd (find_objects example_pcv (PyObj 1) (PyObj 16))) of
                     (xCont, xHier, unused, pArea) \<Rightarrow>
                       if pArea \<le> 0 then cs ! i = PyEmptyList \<and> ms ! i = PyEmptyList
                       else cs ! i = PyObj (fst (object_composition example_pcv (PyObj 1) xCont xHier))
                          \<and> ms ! i = PyObj (snd (object_composition example_pcv (PyObj 1) xCont xHier))"
    by auto
  have e0: "cs ! 0 = PyObj 1120 \<and> ms ! 0 = PyObj 1130"
    using each [rule_format, of 0] by (simp add: example_pcv_def)
  have e1: "cs ! 1 = PyEmptyList \<and> ms ! 1 = PyEmptyList"
    using each [rule_format, of 1] by (simp add: example_pcv_def)
  have e2: "cs ! 2 = PyObj 1122 \<and> ms ! 2 = PyObj 1132"
    using each [rule_format, of 2] by (simp add: example_pcv_def)
  have e3: "cs ! 3 = PyObj 1123 \<and> ms ! 3 = PyObj 1133"
    using each [rule_format, of 3] by (simp add: example_pcv_def)
  have four: "xs = [xs ! 0, xs ! 1, xs ! 2, xs ! 3]" if "length xs = 4" for xs :: "nat pyval list"
    using that by (auto simp: numeral_eq_Suc length_Suc_conv)
  have "cs = [PyObj 1120, PyEmptyList, PyObj 1122, PyObj 1123]"
    using four [OF len(1)] e0 e1 e2 e3 by simp
  moreover have "ms = [PyObj 1130, PyEmptyList, PyObj 1132, PyObj 1133]"
    using four [OF len(2)] e0 e1 e2 e3 by simp
  ultimately show "RigidSegmentation_Invoke example_pcv
     (RigidSegmentationGridConfig (70, 150) 30 (90, 90) 2 2 ''partial'')
     (DoubleImageChannel (PyObj 1) (PyObj 16) ''image_1.jpg'')
   = Inr (Some (''RigidSegmentation'',
        SegmentationChannel [PyObj 1120, PyEmptyList, PyObj 1122, PyObj 1123]
                            [PyObj 1130, PyEmptyList, PyObj 1132, PyObj 1133]
                            (PyObj 1) ''image_1.jpg''))"
    using inv by simp
next
  have c: "roi_multi example_pcv (PyObj 1) (Centers [(139, 205), (220, 200), (306, 194)]) 15 None
           = ([20, 21, 22], [30, 31, 32])"
    by (simp add: example_pcv_def example_roi_multi_def upt_conv_Cons)
  from RigidSegmentation_positions [where cfg = "RigidSegmentationCustomConfig [(139, 205), (220, 200), (306, 194)] 15"
      and centers = "[(139, 205), (220, 200), (306, 194)]" and radius = 15
      and pcv = example_pcv and primary = "PyObj 1"
      and rois = "[20, 21, 22]" and roiH = "[30, 31, 32]"
      and secondary = "PyObj 16" and tag = "''image_1.jpg''"] c
  obtain cs ms where
    inv: "RigidSegmentation_Invoke example_pcv
            (RigidSegmentationCustomConfig [(139, 205), (220, 200), (306, 194)] 15)
            (DoubleImageChannel (PyObj 1) (PyObj 16) ''image_1.jpg'')
          = Inr (Some (''RigidSegmentation'', SegmentationChannel cs ms (PyObj 1) ''image_1.jpg''))"
    and len: "length cs = 3" "length ms = 3"
    and each: "\<forall>i < 3. case roi_objects example_pcv (PyObj 1) ([20, 21, 22] ! i) ([30, 31, 32] ! i)
                          (fst (find_objects example_pcv (PyObj 1) (PyObj 16)))
                          (snd (find_objects example_pcv (PyObj 1) (PyObj 16))) of
                     (xCont, xHier, unused, pArea) \<Rightarrow>
                       if pArea \<le> 0 then cs ! i = PyEmptyList \<and> ms ! i = PyEmptyList
                       else cs ! i = PyObj (fst (object_composition example_pcv (PyObj 1) xCont xHier))
                          \<and> ms ! i = PyObj (snd (object_composition example_pcv (PyObj 1) xCont xHier))"
    by auto
  have e0: "cs ! 0 = PyObj 1120 \<and> ms ! 0 = PyObj 1130"
    using each [rule_format, of 0] by (simp add: example_pcv_def)
  have e1: "cs ! 1 = PyEmptyList \<and> ms ! 1 = PyEmptyList"
    using each [rule_format, of 1] by (simp add: example_pcv_def)
  have e2: "cs ! 2 = PyObj 1122 \<and> ms ! 2 = PyObj 1132"
    using each [rule_format, of 2] by (simp add: example_pcv_def)
  have three: "xs = [xs ! 0, xs ! 1, xs ! 2]" if "length xs = 3" for xs :: "nat pyval list"
    using that by (auto simp: numeral_eq_Suc length_Suc_conv)
  have "cs = [PyObj 1120, PyEmptyList, PyObj 1122]"
    using three [OF len(1)] e0 e1 e2 by simp
  moreover have "ms = [PyObj 1130, PyEmptyList, PyObj 1132]"
    using three [OF len(2)] e0 e1 e2 by simp
  ultimately show "RigidSegmentation_Invoke example_pcv
       (RigidSegmentationCustomConfig [(139, 205), (220, 200), (306, 194)] 15)
       (DoubleImageChannel (PyObj 1) (PyObj 16) ''image_1.jpg'')
     = Inr (Some (''RigidSegmentation'',
          SegmentationChannel [PyObj 1120, PyEmptyList, PyObj 1122]
                              [PyObj 1130, PyEmptyList, PyObj 1132]
                              (PyObj 1) ''image_1.jpg''))"
    using inv by simp
qed

section \<open>DBSCANSegmentation\<close>

lemma DBSCANSegmentation_loop_map:
  "DBSCANSegmentation_loop pcv primary cMsks retMsks retCnts =
     (retMsks @ map PyObj cMsks,
      retCnts @ map (\<lambda>m. PyObj (roi_from_binary_image pcv primary m)) cMsks)"
  by (induction cMsks arbitrary: retMsks retCnts) (simp_all add: Let_def)

text \<open>
  On a DoubleImage input the masks returned are the masks of the one clustering of the
  secondary image, each with the contour derived from it: no mask is clustered again.
\<close>

lemma DBSCANSegmentation_Invoke_unrefined:
  "DBSCANSegmentation_Invoke pcv cfg (DoubleImageChannel primary secondary tag) =
     Inr (Some (''DBSCANSegmentation'',
       SegmentationChannel
         (map (\<lambda>m. PyObj (roi_from_binary_image pcv primary m))
            (snd (spatial_clustering pcv secondary (minClusterSize cfg) (epsilon cfg))))
         (map PyObj (snd (spatial_clustering pcv secondary (minClusterSize cfg) (epsilon cfg))))
         primary tag))"
  by (simp add: DBSCANSegmentation_Invoke_def DBSCANSegmentation_loop_map Let_def)

text \<open>
  C2, at an input where the code and the claim differ. The secondary image 7 clusters
  into the single mask 8; mask 8 clusters into 81 and 82, each of which clusters into
  itself. The claim's output is the masks 81 and 82; \<^verbatim>\<open>Invoke\<close> returns mask 8. The helper
  \<^verbatim>\<open>extractSubMasks\<close>, had it been called on mask 8, raises \<^verbatim>\<open>TypeError\<close> at its recursive
  call.
\<close>

theorem DBSCANSegmentation_returns_top_level_masks:
  "DBSCANSegmentation_Invoke example_pcv \<lparr>minClusterSize = 5, epsilon = 0.059\<rparr>
     (DoubleImageChannel (PyObj 1) (PyObj 7) ''image_1.jpg'')
   = Inr (Some (''DBSCANSegmentation'',
        SegmentationChannel [PyObj 508] [PyObj 8] (PyObj 1) ''image_1.jpg''))
   \<and> snd (spatial_clustering example_pcv (PyObj 7) 5 0.059) = [8]
   \<and> snd (spatial_clustering example_pcv (PyObj 8) 5 0.059) = [81, 82]
   \<and> snd (spatial_clustering example_pcv (PyObj 81) 5 0.059) = [81]
   \<and> snd (spatial_clustering example_pcv (PyObj 82) 5 0.059) = [82]
   \<and> extractSubMasks example_pcv \<lparr>minClusterSize = 5, epsilon = 0.059\<rparr> [8] [] = Inl TypeError"
  by (simp add: DBSCANSegmentation_Invoke_unrefined example_pcv_def example_clusters_def)

section \<open>Format\<close>

text \<open>
  C6. For a unit that is not valid, \<^verbatim>\<open>Format\<close> returns the integer 0 whatever the stages
  and the library are, also with a stage list whose first stage would raise: no stage is
  invoked. The result is no \<^verbatim>\<open>FormattedData\<close>, and it differs from every result for a
  valid unit, which is a \<^verbatim>\<open>FormattedData\<close> or a raise.
\<close>

theorem Format_invalid_unit:
  "\<not> valid (raw data) \<Longrightarrow>
     Format ids pcv cfg data = Inr (PyInt 0)
     \<and> Format ids pcv cfg data \<noteq> Inr (PyObj fd)
     \<and> (valid (raw data') \<longrightarrow> Format ids pcv cfg data' \<noteq> Format ids pcv cfg data)"
  by (auto simp: Format_def bindE_def split: sum.splits)

text \<open>
  An instance: the night image, in a pipeline whose only stage raises on the single
  image that a valid unit starts with.
\<close>

theorem Format_invalid_unit_witness:
  "\<not> valid (raw night_unit)
   \<and> Format example_ids example_pcv
       \<lparr>options = example_options,
        stages = [RigidSegmentation (RigidSegmentationCustomConfig [(139, 205)] 15)]\<rparr> night_unit
     = Inr (PyInt 0)
   \<and> Format example_ids example_pcv
       \<lparr>options = example_options,
        stages = [RigidSegmentation (RigidSegmentationCustomConfig [(139, 205)] 15)]\<rparr> example_unit
     = Inl AttributeError"
  using Format_invalid_unit [of night_unit example_ids example_pcv
      "\<lparr>options = example_options,
        stages = [RigidSegmentation (RigidSegmentationCustomConfig [(139, 205)] 15)]\<rparr>"
      "\<lparr>base = raw example_unit, proc = []\<rparr>" example_unit]
  by (simp add: night_unit_def example_unit_def example_ids_def Format_def
      RigidSegmentation_Invoke_def Let_def)

section \<open>The history of a run\<close>

lemma bindE_Inr_iff: "bindE m f = Inr y \<longleftrightarrow> (\<exists>x. m = Inr x \<and> f x = Inr y)"
  by (cases m) auto

text \<open>Every stage returns its own name with its output channel.\<close>

lemma Invoke_name:
  "Invoke ids pcv s inData = Inr (Some (name, ch)) \<Longrightarrow> name = GetName s"
proof (cases s)
  case (WhiteBalance c)
  assume "Invoke ids pcv s inData = Inr (Some (name, ch))"
  then show ?thesis using WhiteBalance
    by (auto simp: WhiteBalance_Invoke_def bindE_Inr_iff Let_def)
next
  case (ViewportAdjust c)
  assume "Invoke ids pcv s inData = Inr (Some (name, ch))"
  then show ?thesis using ViewportAdjust
    by (auto simp: ViewportAdjust_Invoke_def bindE_Inr_iff Let_def)
next
  case (BinaryMask c)
  assume "Invoke ids pcv s inData = Inr (Some (name, ch))"
  then show ?thesis using BinaryMask
    by (auto simp: BinaryMask_Invoke_def bindE_Inr_iff Let_def)
next
  case (Consolidation c)
  assume "Invoke ids pcv s inData = Inr (Some (name, ch))"
  then show ?thesis using Consolidation
    by (auto simp: Consolidation_Invoke_def bindE_Inr_iff split: if_splits)
next
  case (RigidSegmentation c)
  assume "Invoke ids pcv s inData = Inr (Some (name, ch))"
  then show ?thesis using RigidSegmentation
    by (auto simp: RigidSegmentation_Invoke_def bindE_Inr_iff Let_def case_prod_beta)
next
  case (DBSCANSegmentation c)
  assume "Invoke ids pcv s inData = Inr (Some (name, ch))"
  then show ?thesis using DBSCANSegmentation
    by (auto simp: DBSCANSegmentation_Invoke_def bindE_Inr_iff Let_def case_prod_beta)
next
  case (PlantAnalysis c)
  assume "Invoke ids pcv s inData = Inr (Some (name, ch))"
  then show ?thesis using PlantAnalysis
    by (auto simp: PlantAnalysis_Invoke_def bindE_Inr_iff split: if_splits option.splits)
qed

text \<open>
  The loop appends one entry per stage to the history it starts with. \<open>chs\<close> are the
  output channels; stage \<open>i\<close> runs on the snapshot of the history before it when it takes
  a snapshot, and on the channel before it otherwise.
\<close>

lemma Format_loop_history:
  "Format_loop ids pcv ss inData intmed = Inr out \<Longrightarrow>
     \<exists>chs. length chs = length ss
       \<and> out = intmed @ map2 (\<lambda>s ch. (GetName s, ChannelValue ch)) ss chs
       \<and> (\<forall>i < length ss.
            Invoke ids pcv (ss ! i)
              (if fst (GetInterfaceIDs ids (ss ! i)) = Snapshot_ID ids
               then SnapshotChannel (take (length intmed + i) out)
               else (inData # chs) ! i)
            = Inr (Some (GetName (ss ! i), chs ! i)))"
proof (induction ss arbitrary: inData intmed)
  case Nil
  then show ?case by simp
next
  case (Cons s ss)
  let ?in = "if fst (GetInterfaceIDs ids s) = Snapshot_ID ids then SnapshotChannel intmed else inData"
  from Cons.prems obtain name ch where
    inv: "Invoke ids pcv s ?in = Inr (Some (name, ch))" and
    loop: "Format_loop ids pcv ss ch (intmed @ [(name, ChannelValue ch)]) = Inr out"
    by (auto simp: Let_def bindE_Inr_iff split: option.splits)
  have name: "name = GetName s" using inv by (rule Invoke_name)
  from Cons.IH [OF loop] obtain chs where
    len: "length chs = length ss" and
    out: "out = (intmed @ [(name, ChannelValue ch)])
                @ map2 (\<lambda>s ch. (GetName s, ChannelValue ch)) ss chs" and
    each: "\<forall>i < length ss.
            Invoke ids pcv (ss ! i)
              (if fst (GetInterfaceIDs ids (ss ! i)) = Snapshot_ID ids
               then SnapshotChannel (take (length (intmed @ [(name, ChannelValue ch)]) + i) out)
               else (ch # chs) ! i)
            = Inr (Some (GetName (ss ! i), chs ! i))"
    by blast
  have take0: "take (length intmed) out = intmed" using out by simp
  have all: "\<forall>i < length (s # ss).
            Invoke ids pcv ((s # ss) ! i)
              (if fst (GetInterfaceIDs ids ((s # ss) ! i)) = Snapshot_ID ids
               then SnapshotChannel (take (length intmed + i) out)
               else (inData # ch # chs) ! i)
            = Inr (Some (GetName ((s # ss) ! i), (ch # chs) ! i))"
  proof (intro allI impI)
    fix i assume i: "i < length (s # ss)"
    show "Invoke ids pcv ((s # ss) ! i)
              (if fst (GetInterfaceIDs ids ((s # ss) ! i)) = Snapshot_ID ids
               then SnapshotChannel (take (length intmed + i) out)
               else (inData # ch # chs) ! i)
            = Inr (Some (GetName ((s # ss) ! i), (ch # chs) ! i))"
    proof (cases i)
      case 0
      then show ?thesis using inv name take0 by (simp split: if_splits)
    next
      case (Suc j)
      then have "j < length ss" using i by simp
      with each have "Invoke ids pcv (ss ! j)
              (if fst (GetInterfaceIDs ids (ss ! j)) = Snapshot_ID ids
               then SnapshotChannel (take (length (intmed @ [(name, ChannelValue ch)]) + j) out)
               else (ch # chs) ! j)
            = Inr (Some (GetName (ss ! j), chs ! j))" by blast
      then show ?thesis using Suc by (simp split: if_splits)
    qed
  qed
  show ?case
    apply (rule exI [of _ "ch # chs"])
    using len out name all by simp
qed

text \<open>
  C7. For a valid unit, what \<^verbatim>\<open>Format\<close> returns is a \<^verbatim>\<open>FormattedData\<close> whose \<open>base\<close> is
  the unit's raw data and whose \<open>proc\<close> starts with the entry \<^verbatim>\<open>("Disk", unit)\<close>, so that
  the image found under \<^verbatim>\<open>"Disk"\<close> is the unit's raw image, followed by one entry
  (name, output channel) per configured stage in the order of the stages, each the
  result of invoking that stage on the channel running at that point.
\<close>

theorem Format_history:
  assumes "valid (raw data)" and "Format ids pcv cfg data = Inr r"
  shows "\<exists>fd chs. r = PyObj fd \<and> base fd = raw data
           \<and> proc fd ! 0 = (''Disk'', DataUnitValue data)
           \<and> FindOutput ''Disk'' (proc fd) = Inr (rgb (raw data))
           \<and> length chs = length (stages cfg)
           \<and> proc fd = (''Disk'', DataUnitValue data)
                        # map2 (\<lambda>s ch. (GetName s, ChannelValue ch)) (stages cfg) chs
           \<and> (\<forall>i < length (stages cfg).
                Invoke ids pcv (stages cfg ! i)
                  (if fst (GetInterfaceIDs ids (stages cfg ! i)) = Snapshot_ID ids
                   then SnapshotChannel (take (Suc i) (proc fd))
                   else (SingleImageChannel (rgb (raw data)) # chs) ! i)
                = Inr (Some (GetName (stages cfg ! i), chs ! i)))"
proof -
  from assms obtain out where
    loop: "Format_loop ids pcv (stages cfg) (SingleImageChannel (rgb (raw data)))
             [(''Disk'', DataUnitValue data)] = Inr out" and
    r: "r = PyObj \<lparr>base = raw data, proc = out\<rparr>"
    by (auto simp: Format_def bindE_Inr_iff)
  from Format_loop_history [OF loop] obtain chs where
    len: "length chs = length (stages cfg)" and
    out: "out = [(''Disk'', DataUnitValue data)]
                @ map2 (\<lambda>s ch. (GetName s, ChannelValue ch)) (stages cfg) chs" and
    each: "\<forall>i < length (stages cfg).
            Invoke ids pcv (stages cfg ! i)
              (if fst (GetInterfaceIDs ids (stages cfg ! i)) = Snapshot_ID ids
               then SnapshotChannel (take (length [(''Disk'', DataUnitValue data)] + i) out)
               else (SingleImageChannel (rgb (raw data)) # chs) ! i)
            = Inr (Some (GetName (stages cfg ! i), chs ! i))"
    by blast
  show ?thesis
    apply (rule exI [of _ "\<lparr>base = raw data, proc = out\<rparr>"])
    apply (rule exI [of _ chs])
    using r len out each by auto
qed

lemma Format_example_unit:
  "Format example_ids example_pcv example_pipeline example_unit = Inr (PyObj example_formatted)"
  by (simp add: Format_def example_pipeline_def example_formatted_def example_ids_def
      example_unit_def Let_def BinaryMask_Invoke_def Consolidation_Invoke_def index_def
      first_rgbFile_def DBSCANSegmentation_Invoke_unrefined PlantAnalysis_Invoke_def
      example_pcv_def example_clusters_def)

lemma Format_night_unit:
  "Format example_ids example_pcv example_pipeline night_unit = Inr (PyInt 0)"
  by (simp add: Format_def night_unit_def)

text \<open>An instance: the example unit in the DBSCAN pipeline.\<close>

theorem Format_history_witness:
  "valid (raw example_unit)
   \<and> Format example_ids example_pcv example_pipeline example_unit = Inr (PyObj example_formatted)
   \<and> proc example_formatted ! 0 = (''Disk'', DataUnitValue example_unit)
   \<and> length (proc example_formatted) = Suc (length (stages example_pipeline))"
proof -
  have v: "valid (raw example_unit)" by (simp add: example_unit_def)
  from Format_history [OF v Format_example_unit]
  show ?thesis using v Format_example_unit by auto
qed

section \<open>FormatSet\<close>

lemma FormatSet_loop_map:
  "FormatSet_loop ids pcv cfg units acc = Inr out \<Longrightarrow>
     \<exists>rs. out = acc @ rs \<and> map (Format ids pcv cfg) units = map Inr rs"
proof (induction units arbitrary: acc)
  case Nil
  then show ?case by simp
next
  case (Cons u units)
  from Cons.prems obtain r where
    f: "Format ids pcv cfg u = Inr r" and
    loop: "FormatSet_loop ids pcv cfg units (acc @ [r]) = Inr out"
    by (auto simp: bindE_Inr_iff)
  from Cons.IH [OF loop] obtain rs where "out = (acc @ [r]) @ rs"
    "map (Format ids pcv cfg) units = map Inr rs" by blast
  then show ?case using f by (intro exI [of _ "r # rs"]) simp
qed

lemma FormatSet_loop_all_return:
  "map (Format ids pcv cfg) units = map Inr rs \<Longrightarrow>
     FormatSet_loop ids pcv cfg units acc = Inr (acc @ rs)"
proof (induction units arbitrary: acc rs)
  case Nil
  then show ?case by simp
next
  case (Cons u units)
  from Cons.prems obtain r rs' where rs: "rs = r # rs'" and
    f: "Format ids pcv cfg u = Inr r" and rest: "map (Format ids pcv cfg) units = map Inr rs'"
    by (cases rs) auto
  show ?case using Cons.IH [OF rest, of "acc @ [r]"] rs f by simp
qed

lemma Format_result_cases:
  "Format ids pcv cfg u = Inr r \<Longrightarrow>
     (if valid (raw u) then (\<exists>fd. r = PyObj fd) else r = PyInt 0)"
  by (auto simp: Format_def bindE_Inr_iff split: if_splits)

lemma filter_results:
  "map (Format ids pcv cfg) units = map Inr rs \<Longrightarrow>
     map Inr (filter (\<lambda>r. r \<noteq> PyInt 0) rs)
       = map (Format ids pcv cfg) (filter (\<lambda>u. valid (raw u)) units)"
proof (induction units arbitrary: rs)
  case Nil
  then show ?case by simp
next
  case (Cons u units)
  from Cons.prems obtain r rs' where rs: "rs = r # rs'" and
    f: "Format ids pcv cfg u = Inr r" and rest: "map (Format ids pcv cfg) units = map Inr rs'"
    by (cases rs) auto
  from Format_result_cases [OF f] have "r \<noteq> PyInt 0 \<longleftrightarrow> valid (raw u)"
    by (auto split: if_splits)
  then show ?case using Cons.IH [OF rest] rs f by simp
qed

text \<open>
  C5 (as amended). \<^verbatim>\<open>FormatSet\<close> returns a list exactly when \<^verbatim>\<open>Format\<close> returns for every
  unit, and the list then holds one result per unit, at the unit's position: the
  \<^verbatim>\<open>FormattedData\<close> of a valid unit, the integer 0 for a unit that is not valid. The
  entries other than 0 are the results of the valid units in their order, \<open>N - k\<close> of
  them.
\<close>

theorem FormatSet_one_per_unit:
  "(FormatSet ids pcv cfg units = Inr results
      \<longleftrightarrow> map (Format ids pcv cfg) units = map Inr results)
   \<and> (FormatSet ids pcv cfg units = Inr results \<longrightarrow>
        length results = length units
        \<and> (\<forall>i < length units.
             Format ids pcv cfg (units ! i) = Inr (results ! i)
             \<and> (if valid (raw (units ! i)) then (\<exists>fd. results ! i = PyObj fd)
                else results ! i = PyInt 0))
        \<and> map Inr (filter (\<lambda>r. r \<noteq> PyInt 0) results)
            = map (Format ids pcv cfg) (filter (\<lambda>u. valid (raw u)) units)
        \<and> length (filter (\<lambda>r. r \<noteq> PyInt 0) results)
            = length units - length (filter (\<lambda>u. \<not> valid (raw u)) units))"
proof -
  have iff: "FormatSet ids pcv cfg units = Inr results
      \<longleftrightarrow> map (Format ids pcv cfg) units = map Inr results"
  proof
    assume "FormatSet ids pcv cfg units = Inr results"
    with FormatSet_loop_map [of ids pcv cfg units "[]" results]
    show "map (Format ids pcv cfg) units = map Inr results"
      by (simp add: FormatSet_def)
  next
    assume "map (Format ids pcv cfg) units = map Inr results"
    from FormatSet_loop_all_return [OF this, of "[]"]
    show "FormatSet ids pcv cfg units = Inr results"
      by (simp add: FormatSet_def)
  qed
  have rest: "length results = length units
        \<and> (\<forall>i < length units.
             Format ids pcv cfg (units ! i) = Inr (results ! i)
             \<and> (if valid (raw (units ! i)) then (\<exists>fd. results ! i = PyObj fd)
                else results ! i = PyInt 0))
        \<and> map Inr (filter (\<lambda>r. r \<noteq> PyInt 0) results)
            = map (Format ids pcv cfg) (filter (\<lambda>u. valid (raw u)) units)
        \<and> length (filter (\<lambda>r. r \<noteq> PyInt 0) results)
            = length units - length (filter (\<lambda>u. \<not> valid (raw u)) units)"
    if m: "map (Format ids pcv cfg) units = map Inr results"
  proof -
    have len: "length results = length units"
      using m by (metis length_map)
    have each: "\<forall>i < length units.
            Format ids pcv cfg (units ! i) = Inr (results ! i)
            \<and> (if valid (raw (units ! i)) then (\<exists>fd. results ! i = PyObj fd)
               else results ! i = PyInt 0)"
    proof (intro allI impI)
      fix i assume i: "i < length units"
      have "map (Format ids pcv cfg) units ! i = map Inr results ! i" using m by simp
      then have f: "Format ids pcv cfg (units ! i) = Inr (results ! i)" using i len by simp
      from Format_result_cases [OF f] f
      show "Format ids pcv cfg (units ! i) = Inr (results ! i)
            \<and> (if valid (raw (units ! i)) then (\<exists>fd. results ! i = PyObj fd)
               else results ! i = PyInt 0)" by simp
    qed
    have filt: "map Inr (filter (\<lambda>r. r \<noteq> PyInt 0) results)
           = map (Format ids pcv cfg) (filter (\<lambda>u. valid (raw u)) units)"
      using m by (rule filter_results)
    have "length (filter (\<lambda>r. r \<noteq> PyInt 0) results) = length (filter (\<lambda>u. valid (raw u)) units)"
      using filt by (metis length_map)
    moreover have "length (filter (\<lambda>u. valid (raw u)) units)
                   = length units - length (filter (\<lambda>u. \<not> valid (raw u)) units)"
      using sum_length_filter_compl [of "\<lambda>u. valid (raw u)" units] by simp
    ultimately show ?thesis using len each filt by simp
  qed
  show ?thesis using iff rest by blast
qed

text \<open>An instance: a night image between two loaded units.\<close>

theorem FormatSet_one_per_unit_witness:
  "FormatSet example_ids example_pcv example_pipeline [example_unit, night_unit, example_unit]
     = Inr [PyObj example_formatted, PyInt 0, PyObj example_formatted]"
proof -
  have m: "map (Format example_ids example_pcv example_pipeline) [example_unit, night_unit, example_unit]
     = map Inr [PyObj example_formatted, PyInt 0, PyObj example_formatted]"
    by (simp add: Format_example_unit Format_night_unit)
  from FormatSet_one_per_unit [of example_ids example_pcv example_pipeline
      "[example_unit, night_unit, example_unit]"
      "[PyObj example_formatted, PyInt 0, PyObj example_formatted]"] m
  show ?thesis by blast
qed

text \<open>
  Of two units one is not valid, so \<open>N - k = 1\<close>; the list returned has two entries, the
  first of them the integer 0.
\<close>

theorem FormatSet_keeps_invalid_positions:
  "FormatSet example_ids example_pcv example_pipeline [night_unit, example_unit]
     = Inr [PyInt 0, PyObj example_formatted]
   \<and> length [night_unit, example_unit]
       - length (filter (\<lambda>u. \<not> valid (raw u)) [night_unit, example_unit]) = 1"
proof
  show "FormatSet example_ids example_pcv example_pipeline [night_unit, example_unit]
     = Inr [PyInt 0, PyObj example_formatted]"
    by (simp add: FormatSet_def Format_example_unit Format_night_unit)
  show "length [night_unit, example_unit]
       - length (filter (\<lambda>u. \<not> valid (raw u)) [night_unit, example_unit]) = 1"
    by (simp add: night_unit_def example_unit_def)
qed

end
